theory Spec2Isabelle
  imports Complex_Main "HOL-Library.Word"
begin

section \<open>JavaScript values and effects\<close>

text \<open>
  A value caught by a \<^verbatim>\<open>catch\<close> clause of the orchestration code: an \<^verbatim>\<open>Error\<close> instance
  (its \<^verbatim>\<open>name\<close> and its \<^verbatim>\<open>message\<close>), a thrown string primitive (\<^verbatim>\<open>tokenTransfer\<close> throws
  one), or \<^verbatim>\<open>undefined\<close> (what \<^verbatim>\<open>executeWithRetry\<close> throws when its loop never ran).
\<close>

datatype js_error =
    ErrorObj string string
  | ThrownString string
  | ThrownUndefined

text \<open>\<^verbatim>\<open>error instanceof Error ? error.message : String(error)\<close>\<close>

fun error_text :: "js_error \<Rightarrow> string" where
  "error_text (ErrorObj nm msg) = msg"
| "error_text (ThrownString str) = str"
| "error_text ThrownUndefined = ''undefined''"

datatype level = LogLevel | ErrorLevel

text \<open>
  One console line is the list of its pieces in order: the literal parts of a template
  string and the interpolated values, or the arguments of the call.
\<close>

datatype piece =
    Str string
  | Num nat
  | Quantity rat
  | Err js_error
  | Strs "string list"

text \<open>One external call of the program (bridge SDK or ledger RPC), with its arguments.\<close>

datatype call =
    Wormhole_init
  | GetSigner string
  | GetTokenDecimals string
  | Wh_tokenTransfer int string string bool
  | QuoteTransfer
  | InitiateTransfer
  | FetchAttestation nat
  | CompleteTransfer
  | Minters string
  | AddMinter string
  | TxWait string
  | BalanceOf string string
  | Decimals string
  | Approve string string int
  | Stake int
  | Unstake int
  | GetUserStake string

text \<open>
  The program state: the outside world (ledgers, bridge, network), the external calls made
  so far with whether each one succeeded, the console lines written so far, and the delays
  (in milliseconds) of the \<^verbatim>\<open>setTimeout\<close> suspensions so far.
\<close>

record 'w state =
  world :: 'w
  trace :: "(call \<times> bool) list"
  console :: "(level \<times> piece list) list"
  sleeps :: "rat list"

type_synonym ('w, 'a) io = "'w \<Rightarrow> (js_error + 'a) \<times> 'w"
type_synonym ('w, 'a) prog = "'w state \<Rightarrow> (js_error + 'a) \<times> 'w state"

definition console_log :: "piece list \<Rightarrow> 'w state \<Rightarrow> 'w state" where
  "console_log ps s = s\<lparr>console := console s @ [(LogLevel, ps)]\<rparr>"

definition console_error :: "piece list \<Rightarrow> 'w state \<Rightarrow> 'w state" where
  "console_error ps s = s\<lparr>console := console s @ [(ErrorLevel, ps)]\<rparr>"

text \<open>\<^verbatim>\<open>await new Promise(resolve => setTimeout(resolve, delay))\<close>\<close>

definition sleep :: "rat \<Rightarrow> 'w state \<Rightarrow> 'w state" where
  "sleep delay s = s\<lparr>sleeps := sleeps s @ [delay]\<rparr>"

text \<open>
  An awaited external call: the world answers with a value or a rejection and moves on;
  the call and its outcome are appended to the trace.
\<close>

definition invoke :: "call \<Rightarrow> ('w, 'a) io \<Rightarrow> ('w, 'a) prog" where
  "invoke c op s =
     (case op (world s) of
        (r, w') \<Rightarrow> (r, s\<lparr>world := w', trace := trace s @ [(c, \<not> isl r)]\<rparr>))"

text \<open>Sequencing of awaited steps: a rejection skips the rest.\<close>

definition bind :: "('w, 'a) prog \<Rightarrow> ('a \<Rightarrow> ('w, 'b) prog) \<Rightarrow> ('w, 'b) prog" where
  "bind m f s = (case m s of (Inl e, s1) \<Rightarrow> (Inl e, s1) | (Inr v, s1) \<Rightarrow> f v s1)"

definition try_catch :: "('w, 'a) prog \<Rightarrow> (js_error \<Rightarrow> ('w, 'a) prog) \<Rightarrow> ('w, 'a) prog" where
  "try_catch m handler s = (case m s of (Inl e, s1) \<Rightarrow> handler e s1 | (Inr v, s1) \<Rightarrow> (Inr v, s1))"

definition ret :: "'a \<Rightarrow> ('w, 'a) prog" where
  "ret v s = (Inr v, s)"

definition throw :: "js_error \<Rightarrow> ('w, 'a) prog" where
  "throw e s = (Inl e, s)"

definition log :: "piece list \<Rightarrow> ('w, unit) prog" where
  "log ps s = (Inr (), console_log ps s)"

definition log_error :: "piece list \<Rightarrow> ('w, unit) prog" where
  "log_error ps s = (Inr (), console_error ps s)"

text \<open>A synchronous library function that returns or throws.\<close>

definition lift :: "js_error + 'a \<Rightarrow> ('w, 'a) prog" where
  "lift r s = (r, s)"

text \<open>\<^verbatim>\<open>xs[i]\<close> on an array: \<^verbatim>\<open>undefined\<close> (here \<open>None\<close>) out of range.\<close>

definition js_index :: "'a list \<Rightarrow> nat \<Rightarrow> 'a option" where
  "js_index xs i = (if i < length xs then Some (xs ! i) else None)"

text \<open>A possibly undefined string inside a template literal.\<close>

fun template :: "string option \<Rightarrow> string" where
  "template None = ''undefined''"
| "template (Some str) = str"

text \<open>
  \<^verbatim>\<open>error.toString()\<close>: \<^verbatim>\<open>Error.prototype.toString\<close> joins name and message, a string is
  itself, and reading a property of \<^verbatim>\<open>undefined\<close> throws a \<^verbatim>\<open>TypeError\<close>.
\<close>

fun js_toString :: "js_error \<Rightarrow> js_error + string" where
  "js_toString (ErrorObj nm msg) =
     Inr (if nm = [] then msg else if msg = [] then nm else nm @ '': '' @ msg)"
| "js_toString (ThrownString str) = Inr str"
| "js_toString ThrownUndefined =
     Inl (ErrorObj ''TypeError'' ''Cannot read properties of undefined (reading toString)'')"

fun startsWith :: "string \<Rightarrow> string \<Rightarrow> bool" where
  "startsWith str [] = True"
| "startsWith [] (p # ps) = False"
| "startsWith (c # cs) (p # ps) = (c = p \<and> startsWith cs ps)"

text \<open>\<^verbatim>\<open>String.prototype.includes\<close>: the search string occurs somewhere in the string.\<close>

fun js_includes :: "string \<Rightarrow> string \<Rightarrow> bool" where
  "js_includes [] needle = (needle = [])"
| "js_includes (c # cs) needle = (startsWith (c # cs) needle \<or> js_includes cs needle)"

section \<open>The retry executor\<close>

text \<open>
  \<^verbatim>\<open>executeWithRetry(fn, maxRetries = 5, delay = 3000)\<close>: the \<^verbatim>\<open>for\<close> loop over \<^verbatim>\<open>i\<close>, with the
  loop variables \<^verbatim>\<open>delay\<close> and \<^verbatim>\<open>lastError\<close>. Delays are rationals; every delay of a run that
  starts at 3000 is a multiple of 1/8 and at most 15000, hence exact in double precision.
\<close>

function executeWithRetry_loop ::
  "('w, 'a) prog \<Rightarrow> nat \<Rightarrow> nat \<Rightarrow> rat \<Rightarrow> js_error \<Rightarrow> ('w, 'a) prog" where
  "executeWithRetry_loop fn maxRetries i delay lastError s =
     (if i < maxRetries then
        (case fn s of
           (Inr v, s1) \<Rightarrow> (Inr v, s1)
         | (Inl error, s1) \<Rightarrow>
             (let s2 = console_log [Str ''Attempt '', Num (i + 1), Str ''/'', Num maxRetries,
                                    Str '' failed: '', Str (error_text error)] s1
              in if i < maxRetries - 1 then
                   executeWithRetry_loop fn maxRetries (i + 1) (min (delay * (3 / 2)) 15000) error
                     (sleep delay
                        (console_log [Str ''Waiting '', Quantity (delay / 1000),
                                      Str '' seconds before retrying...''] s2))
                 else executeWithRetry_loop fn maxRetries (i + 1) delay error s2))
      else (Inl lastError, s))"
  by pat_completeness auto
termination
  by (relation "measure (\<lambda>(fn, maxRetries, i, delay, lastError, s). maxRetries - i)") auto

definition executeWithRetry :: "('w, 'a) prog \<Rightarrow> nat \<Rightarrow> rat \<Rightarrow> ('w, 'a) prog" where
  "executeWithRetry fn maxRetries delay = executeWithRetry_loop fn maxRetries 0 delay ThrownUndefined"

section \<open>The bridge transfer\<close>

text \<open>
  The bridge SDK, the ledger RPC library and the missing module \<^verbatim>\<open>helpers/helpers\<close>
  (\<^verbatim>\<open>getSigner\<close>, \<^verbatim>\<open>getTokenDecimals\<close>) are collaborators outside the code under study: every
  call of theirs is a parameter, an arbitrary function of the world that answers or rejects.
\<close>

record signer_stuff =
  ss_chain :: string
  ss_signer :: string
  ss_address :: string

text \<open>The transfer object of the SDK; \<^verbatim>\<open>xfer.transfer.automatic\<close> is the only field read.\<close>

record xfer =
  xfer_id :: nat
  transfer_automatic :: bool

record quote =
  destinationToken_amount :: int

record 'w env =
  wormhole :: "('w, unit) io"
  getSigner :: "string \<Rightarrow> ('w, signer_stuff) io"
  getTokenDecimals :: "string \<times> string \<Rightarrow> string \<Rightarrow> ('w, nat) io"
  amount_units_parse :: "string \<Rightarrow> nat \<Rightarrow> js_error + int"
  wh_tokenTransfer :: "string \<times> string \<Rightarrow> int \<Rightarrow> string \<Rightarrow> string \<Rightarrow> bool \<Rightarrow> ('w, xfer) io"
  quoteTransfer :: "string \<Rightarrow> string \<Rightarrow> xfer \<Rightarrow> ('w, quote) io"
  initiateTransfer :: "xfer \<Rightarrow> string \<Rightarrow> ('w, string list) io"
  fetchAttestation :: "xfer \<Rightarrow> nat \<Rightarrow> ('w, string list) io"
  completeTransfer :: "xfer \<Rightarrow> string \<Rightarrow> ('w, string list) io"
  ETH_PRIVATE_KEY :: "string option"
  new_Wallet :: "string \<Rightarrow> js_error + string"
  contract_minters :: "string \<Rightarrow> string \<Rightarrow> ('w, bool) io"
  contract_addMinter :: "string \<Rightarrow> string \<Rightarrow> ('w, string) io"
  tx_wait :: "string \<Rightarrow> ('w, unit) io"
  contract_balanceOf :: "string \<Rightarrow> string \<Rightarrow> ('w, int) io"
  contract_decimals :: "string \<Rightarrow> ('w, nat) io"
  contract_approve :: "string \<Rightarrow> string \<Rightarrow> int \<Rightarrow> ('w, string) io"
  contract_stake :: "int \<Rightarrow> ('w, string) io"
  contract_unstake :: "int \<Rightarrow> ('w, string) io"
  contract_getUserStake :: "string \<Rightarrow> ('w, int \<times> int) io"
  formatUnits :: "int \<Rightarrow> nat \<Rightarrow> string"

record route =
  route_token :: "string \<times> string"
  route_amount :: int
  route_source :: signer_stuff
  route_destination :: signer_stuff
  route_automatic :: bool

definition fee_error :: js_error where
  "fee_error =
     ThrownString ''The amount requested is too low to cover the fee and any native gas requested.''"

text \<open>\<^verbatim>\<open>tokenTransfer(wh, route)\<close> of \<^verbatim>\<open>cross-chain-staking.ts\<close>.\<close>

definition tokenTransfer :: "'w env \<Rightarrow> route \<Rightarrow> ('w, string list) prog" where
  "tokenTransfer env route =
     bind (invoke (Wh_tokenTransfer (route_amount route) (ss_address (route_source route))
                     (ss_address (route_destination route)) (route_automatic route))
             (wh_tokenTransfer env (route_token route) (route_amount route)
                (ss_address (route_source route)) (ss_address (route_destination route))
                (route_automatic route))) (\<lambda>xfer.
     bind (invoke QuoteTransfer
             (quoteTransfer env (ss_chain (route_source route))
                (ss_chain (route_destination route)) xfer)) (\<lambda>quote.
     if transfer_automatic xfer \<and> destinationToken_amount quote < 0 then throw fee_error
     else
     bind (invoke InitiateTransfer
             (initiateTransfer env xfer (ss_signer (route_source route)))) (\<lambda>srcTxids.
     bind (log [Str ''Executing cross-chain operation and returning monitoring hash:'']) (\<lambda>_.
     bind (log [Str ''Wormhole Hash: '', Str (template (js_index srcTxids 0))]) (\<lambda>_.
     bind (log [Str ''Wormhole Hash: '',
                Str (template (case js_index srcTxids 1 of
                                 None \<Rightarrow> js_index srcTxids 0
                               | Some h \<Rightarrow> Some h))]) (\<lambda>_.
     bind (log [Str ''Querying cross-chain proof...'']) (\<lambda>_.
     bind (invoke (FetchAttestation 60000) (fetchAttestation env xfer 60000)) (\<lambda>attestIds.
     bind (log [Str ''Cross-chain proof query completed:'', Strs attestIds]) (\<lambda>_.
     bind (log [Str ''Cross-chain proof query completed'']) (\<lambda>_.
     bind (try_catch
             (bind (invoke CompleteTransfer
                      (completeTransfer env xfer (ss_signer (route_destination route))))
                (\<lambda>destTxids. log [Str ''Cross-chain transfer completed, hash: '', Strs destTxids]))
             (\<lambda>error.
                bind (lift (js_toString error)) (\<lambda>str.
                if js_includes str ''transfer already completed'' then
                  bind (log [Str ''Transfer has already been completed, possibly automatically by a relayer or successfully completed previously''])
                    (\<lambda>_. log [Str ''This is not an error, your assets should have reached the destination chain''])
                else throw error))) (\<lambda>_.
     ret srcTxids)))))))))))"

record transfer_result =
  sourceAddress :: string
  destinationAddress :: string
  amount :: string
  wormholeHash :: "string option"

text \<open>\<^verbatim>\<open>executeCrossChainTransfer(amt = "0.01")\<close>.\<close>

definition executeCrossChainTransfer :: "'w env \<Rightarrow> string \<Rightarrow> ('w, transfer_result) prog" where
  "executeCrossChainTransfer env amt =
     bind (log [Str ''Starting cross-chain transfer...'']) (\<lambda>_.
     bind (invoke Wormhole_init (wormhole env)) (\<lambda>wh.
     bind (invoke (GetSigner ''Solana'') (getSigner env ''Solana'')) (\<lambda>source.
     bind (log [Str (''Sender: '' @ ss_address source)]) (\<lambda>_.
     bind (invoke (GetSigner ''Sepolia'') (getSigner env ''Sepolia'')) (\<lambda>destination.
     bind (log [Str (''Receiver: '' @ ss_address destination)]) (\<lambda>_.
     let token = (''Solana'', ''native'') in
     bind (log [Str (''Getting cross-chain token: '' @ snd token)]) (\<lambda>_.
     let automatic = False in
     bind (invoke (GetTokenDecimals ''Solana'') (getTokenDecimals env token ''Solana'')) (\<lambda>decimals.
     bind (try_catch
             (bind (lift (amount_units_parse env amt decimals)) (\<lambda>units.
                tokenTransfer env
                  \<lparr>route_token = token, route_amount = units, route_source = source,
                   route_destination = destination, route_automatic = automatic\<rparr>))
             (\<lambda>e. bind (log [Err e]) (\<lambda>_. ret ['''']))) (\<lambda>srcTxids.
     ret \<lparr>sourceAddress = ss_address source,
          destinationAddress = ss_address destination,
          amount = amt,
          wormholeHash = js_index srcTxids 0\<rparr>)))))))))"

section \<open>Staking and unstaking on the destination ledger\<close>

definition STAKING_CONTRACT_ADDRESS :: string where
  "STAKING_CONTRACT_ADDRESS = ''0xfb06c3cd43d8b15c580a196e12ba80d42ffc02cd''"

definition LOAN_TOKEN_ADDRESS :: string where
  "LOAN_TOKEN_ADDRESS = ''0x8c25f65249f568033697a5d06f907f4dafafdeb5''"

definition WRAPPED_SOL_ADDRESS :: string where
  "WRAPPED_SOL_ADDRESS = ''0x824CB8fC742F8D3300d29f16cA8beE94471169f5''"

definition missing_key_error :: js_error where
  "missing_key_error = ErrorObj ''Error'' ''Missing ETH_PRIVATE_KEY environment variable''"

text \<open>The object \<^verbatim>\<open>{ stakedAmount, loanedAmount }\<close> of formatted strings the operations return.\<close>

record stake_position =
  position_staked :: string
  position_loaned :: string

text \<open>\<^verbatim>\<open>executeStaking(userAddress)\<close>; \<open>None\<close> is the \<^verbatim>\<open>null\<close> it returns when nothing is staked.\<close>

definition executeStaking :: "'w env \<Rightarrow> string \<Rightarrow> ('w, stake_position option) prog" where
  "executeStaking env userAddress =
     bind (log [Str ''Starting staking operation...'']) (\<lambda>_.
     case ETH_PRIVATE_KEY env of
       None \<Rightarrow> throw missing_key_error
     | Some privateKey \<Rightarrow>
     if privateKey = [] then throw missing_key_error
     else
     try_catch
       (bind (lift (new_Wallet env privateKey)) (\<lambda>wallet.
        bind (executeWithRetry
                (invoke (Minters STAKING_CONTRACT_ADDRESS)
                   (contract_minters env LOAN_TOKEN_ADDRESS STAKING_CONTRACT_ADDRESS)) 5 3000) (\<lambda>isMinter.
        bind (if \<not> isMinter then
                bind (log [Str ''Staking contract is not a minter, adding minting permission...'']) (\<lambda>_.
                bind (executeWithRetry
                        (invoke (AddMinter STAKING_CONTRACT_ADDRESS)
                           (contract_addMinter env LOAN_TOKEN_ADDRESS STAKING_CONTRACT_ADDRESS)) 5 3000) (\<lambda>addMinterTx.
                bind (log [Str (''Add minter transaction submitted, transaction hash: '' @ addMinterTx)]) (\<lambda>_.
                bind (executeWithRetry (invoke (TxWait addMinterTx) (tx_wait env addMinterTx)) 5 3000) (\<lambda>_.
                log [Str ''Add minter transaction confirmed'']))))
              else log [Str ''Staking contract is already a minter'']) (\<lambda>_.
        bind (executeWithRetry
                (invoke (BalanceOf WRAPPED_SOL_ADDRESS userAddress)
                   (contract_balanceOf env WRAPPED_SOL_ADDRESS userAddress)) 5 3000) (\<lambda>balance.
        bind (executeWithRetry
                (invoke (Decimals WRAPPED_SOL_ADDRESS)
                   (contract_decimals env WRAPPED_SOL_ADDRESS)) 5 3000) (\<lambda>decimals.
        bind (log [Str (''Wrapped SOL balance: '' @ formatUnits env balance decimals @ '' SOL'')]) (\<lambda>_.
        if balance > 0 then
          bind (log [Str ''Approving staking contract to use Wrapped SOL...'']) (\<lambda>_.
          bind (executeWithRetry
                  (invoke (Approve WRAPPED_SOL_ADDRESS STAKING_CONTRACT_ADDRESS balance)
                     (contract_approve env WRAPPED_SOL_ADDRESS STAKING_CONTRACT_ADDRESS balance)) 5 3000) (\<lambda>approveTx.
          bind (log [Str (''Approval transaction submitted, transaction hash: '' @ approveTx)]) (\<lambda>_.
          bind (executeWithRetry (invoke (TxWait approveTx) (tx_wait env approveTx)) 5 3000) (\<lambda>_.
          bind (log [Str ''Approval transaction confirmed'']) (\<lambda>_.
          bind (log [Str ''Executing staking operation...'']) (\<lambda>_.
          bind (executeWithRetry (invoke (Stake balance) (contract_stake env balance)) 5 3000) (\<lambda>stakeTx.
          bind (log [Str (''Staking transaction submitted, transaction hash: '' @ stakeTx)]) (\<lambda>_.
          bind (executeWithRetry (invoke (TxWait stakeTx) (tx_wait env stakeTx)) 5 3000) (\<lambda>_.
          bind (log [Str ''Staking transaction confirmed'']) (\<lambda>_.
          bind (executeWithRetry
                  (invoke (GetUserStake userAddress) (contract_getUserStake env userAddress)) 5 3000)
            (\<lambda>(stakedAmt, loanedAmt).
          bind (log [Str ''Staking status:'']) (\<lambda>_.
          bind (log [Str (''- Staked amount: '' @ formatUnits env stakedAmt decimals @ '' SOL'')]) (\<lambda>_.
          bind (log [Str (''- Loaned amount: '' @ formatUnits env loanedAmt 18 @ '' CCLT'')]) (\<lambda>_.
          ret (Some \<lparr>position_staked = formatUnits env stakedAmt decimals,
                     position_loaned = formatUnits env loanedAmt 18\<rparr>)))))))))))))))
        else
          bind (log [Str ''No Wrapped SOL to stake, please ensure cross-chain transfer was successful''])
            (\<lambda>_. ret None))))))))
       (\<lambda>error. bind (log_error [Str ''Staking operation failed:'', Err error]) (\<lambda>_. throw error)))"

definition insufficient_loan_balance :: "'w env \<Rightarrow> int \<Rightarrow> int \<Rightarrow> js_error" where
  "insufficient_loan_balance env loanedAmt loanBalance =
     ErrorObj ''Error''
       (''Insufficient loan token balance, cannot unstake. Need '' @ formatUnits env loanedAmt 18 @
        '' CCLT but only have '' @ formatUnits env loanBalance 18 @ '' CCLT'')"

record unstake_result =
  withdrawnAmount :: string
  newStakedAmount :: string
  newLoanedAmount :: string

text \<open>\<^verbatim>\<open>executeUnstake()\<close>; the caller's address is the wallet's.\<close>

definition executeUnstake :: "'w env \<Rightarrow> ('w, unstake_result option) prog" where
  "executeUnstake env =
     bind (log [Str ''Starting unstaking operation...'']) (\<lambda>_.
     case ETH_PRIVATE_KEY env of
       None \<Rightarrow> throw missing_key_error
     | Some privateKey \<Rightarrow>
     if privateKey = [] then throw missing_key_error
     else
     try_catch
       (bind (lift (new_Wallet env privateKey)) (\<lambda>userAddress.
        bind (executeWithRetry
                (invoke (GetUserStake userAddress) (contract_getUserStake env userAddress)) 5 3000)
          (\<lambda>(stakedAmt, loanedAmt).
        bind (executeWithRetry
                (invoke (Decimals WRAPPED_SOL_ADDRESS)
                   (contract_decimals env WRAPPED_SOL_ADDRESS)) 5 3000) (\<lambda>decimals.
        bind (log [Str ''Current staking status:'']) (\<lambda>_.
        bind (log [Str (''- Staked amount: '' @ formatUnits env stakedAmt decimals @ '' SOL'')]) (\<lambda>_.
        bind (log [Str (''- Loaned amount: '' @ formatUnits env loanedAmt 18 @ '' CCLT'')]) (\<lambda>_.
        if stakedAmt \<le> 0 then
          bind (log [Str ''No stakes to unstake'']) (\<lambda>_. ret None)
        else
        bind (executeWithRetry
                (invoke (BalanceOf LOAN_TOKEN_ADDRESS userAddress)
                   (contract_balanceOf env LOAN_TOKEN_ADDRESS userAddress)) 5 3000) (\<lambda>loanBalance.
        bind (log [Str (''Loan token balance: '' @ formatUnits env loanBalance 18 @ '' CCLT'')]) (\<lambda>_.
        if loanBalance < loanedAmt then
          throw (insufficient_loan_balance env loanedAmt loanBalance)
        else
        bind (log [Str ''Approving staking contract to use loan tokens...'']) (\<lambda>_.
        bind (executeWithRetry
                (invoke (Approve LOAN_TOKEN_ADDRESS STAKING_CONTRACT_ADDRESS loanedAmt)
                   (contract_approve env LOAN_TOKEN_ADDRESS STAKING_CONTRACT_ADDRESS loanedAmt)) 5 3000) (\<lambda>approveTx.
        bind (log [Str (''Approval transaction submitted, transaction hash: '' @ approveTx)]) (\<lambda>_.
        bind (executeWithRetry (invoke (TxWait approveTx) (tx_wait env approveTx)) 5 3000) (\<lambda>_.
        bind (log [Str ''Approval transaction confirmed'']) (\<lambda>_.
        bind (log [Str ''Executing unstaking operation...'']) (\<lambda>_.
        bind (executeWithRetry (invoke (Unstake stakedAmt) (contract_unstake env stakedAmt)) 5 3000) (\<lambda>unstakeTx.
        bind (log [Str (''Unstaking transaction submitted, transaction hash: '' @ unstakeTx)]) (\<lambda>_.
        bind (executeWithRetry (invoke (TxWait unstakeTx) (tx_wait env unstakeTx)) 5 3000) (\<lambda>_.
        bind (log [Str ''Unstaking transaction confirmed'']) (\<lambda>_.
        bind (executeWithRetry
                (invoke (BalanceOf WRAPPED_SOL_ADDRESS userAddress)
                   (contract_balanceOf env WRAPPED_SOL_ADDRESS userAddress)) 5 3000) (\<lambda>newBalance.
        bind (log [Str (''Wrapped SOL balance after unstaking: '' @ formatUnits env newBalance decimals @ '' SOL'')]) (\<lambda>_.
        bind (executeWithRetry
                (invoke (GetUserStake userAddress) (contract_getUserStake env userAddress)) 5 3000)
          (\<lambda>(newStakedAmt, newLoanedAmt).
        bind (log [Str ''New staking status:'']) (\<lambda>_.
        bind (log [Str (''- Staked amount: '' @ formatUnits env newStakedAmt decimals @ '' SOL'')]) (\<lambda>_.
        bind (log [Str (''- Loaned amount: '' @ formatUnits env newLoanedAmt 18 @ '' CCLT'')]) (\<lambda>_.
        ret (Some \<lparr>withdrawnAmount = formatUnits env stakedAmt decimals,
                   newStakedAmount = formatUnits env newStakedAmt decimals,
                   newLoanedAmount = formatUnits env newLoanedAmt 18\<rparr>))))))))))))))))))))))))))
       (\<lambda>error. bind (log_error [Str ''Unstaking operation failed:'', Err error]) (\<lambda>_. throw error)))"

section \<open>The HTTP entry point of cross-chain staking\<close>

text \<open>
  \<^verbatim>\<open>parseFloat\<close> (ECMAScript): leading white space is skipped and the longest prefix that is
  a decimal literal is read; there is no such prefix exactly when the result is \<^verbatim>\<open>NaN\<close>.
  \<open>Finite q\<close> carries the exact value \<open>q\<close> of the literal, before it is rounded to a double.
  Strings are byte strings here, so only the ASCII white space characters are recognised.
\<close>

datatype js_number = NaN | Finite rat | PosInfinity | NegInfinity

definition is_whitespace :: "char \<Rightarrow> bool" where
  "is_whitespace c = (c \<in> set [CHR '' '', CHR 0x09, CHR 0x0A, CHR 0x0B, CHR 0x0C, CHR 0x0D])"

definition is_digit :: "char \<Rightarrow> bool" where
  "is_digit c = (c \<in> set ''0123456789'')"

definition digits_value :: "string \<Rightarrow> nat" where
  "digits_value ds = foldl (\<lambda>acc c. 10 * acc + (of_char c - 48)) 0 ds"

text \<open>
  The exponent part \<^verbatim>\<open>e\<close>, optional sign, digits at the head of the rest of the string;
  without at least one digit there is no exponent part.
\<close>

definition exponent_part :: "string \<Rightarrow> int" where
  "exponent_part r =
     (case r of
        [] \<Rightarrow> 0
      | c # r1 \<Rightarrow>
          if c = CHR ''e'' \<or> c = CHR ''E'' then
            (case r1 of
               [] \<Rightarrow> 0
             | sg # r2 \<Rightarrow>
                 if sg = CHR ''-'' then
                   (if takeWhile is_digit r2 = [] then 0
                    else - int (digits_value (takeWhile is_digit r2)))
                 else if sg = CHR ''+'' then int (digits_value (takeWhile is_digit r2))
                 else int (digits_value (takeWhile is_digit r1)))
          else 0)"

definition scale10 :: "rat \<Rightarrow> int \<Rightarrow> rat" where
  "scale10 q e = (if e < 0 then q / 10 ^ nat (- e) else q * 10 ^ nat e)"

text \<open>An unsigned decimal literal at the head of the string: \<open>None\<close> when there is none.\<close>

definition unsigned_literal :: "string \<Rightarrow> rat option" where
  "unsigned_literal r =
     (let ip = takeWhile is_digit r; r1 = dropWhile is_digit r in
      case r1 of
        [] \<Rightarrow> (if ip = [] then None else Some (of_nat (digits_value ip)))
      | c # r2 \<Rightarrow>
          if c = CHR ''.'' then
            (let fp = takeWhile is_digit r2; r3 = dropWhile is_digit r2 in
             if ip = [] \<and> fp = [] then None
             else Some (scale10 (of_nat (digits_value (ip @ fp)) / 10 ^ length fp)
                          (exponent_part r3)))
          else if ip = [] then None
          else Some (scale10 (of_nat (digits_value ip)) (exponent_part r1)))"

definition parseFloat :: "string \<Rightarrow> js_number" where
  "parseFloat str =
     (let trimmed = dropWhile is_whitespace str;
          negative = (trimmed \<noteq> [] \<and> hd trimmed = CHR ''-'');
          r = (if trimmed \<noteq> [] \<and> (hd trimmed = CHR ''-'' \<or> hd trimmed = CHR ''+'')
               then tl trimmed else trimmed)
      in if startsWith r ''Infinity'' then (if negative then NegInfinity else PosInfinity)
         else case unsigned_literal r of
                None \<Rightarrow> NaN
              | Some q \<Rightarrow> Finite (if negative then - q else q))"

text \<open>
  \<^verbatim>\<open>x <= 0\<close> on the double nearest to the value: false for \<^verbatim>\<open>NaN\<close>; a positive value rounds
  to zero exactly when it is at most half of the least positive double, \<open>2 ^ - 1074\<close>.
\<close>

fun number_le_zero :: "js_number \<Rightarrow> bool" where
  "number_le_zero NaN = False"
| "number_le_zero (Finite q) = (q \<le> 1 / 2 ^ 1075)"
| "number_le_zero PosInfinity = False"
| "number_le_zero NegInfinity = True"

datatype body =
    Failure string
  | StakeSuccess string transfer_result "stake_position option"

text \<open>
  The handler of \<^verbatim>\<open>POST /api/cross-chain-stake\<close> on a request whose body carries the string
  \<open>amt\<close>: the status and body of the response it sends, \<open>None\<close> when it sends none (reading
  \<^verbatim>\<open>error.message\<close> of a caught \<^verbatim>\<open>undefined\<close> throws inside the \<^verbatim>\<open>catch\<close> clause).
\<close>

definition cross_chain_stake_handler ::
  "'w env \<Rightarrow> string \<Rightarrow> 'w state \<Rightarrow> (nat \<times> body) option \<times> 'w state" where
  "cross_chain_stake_handler env amt s =
     (if amt = [] \<or> number_le_zero (parseFloat amt) then
        (Some (400, Failure ''Please provide a valid amount''), s)
      else
        case bind (executeCrossChainTransfer env amt) (\<lambda>crossChainResult.
             bind (log [Str ''Waiting 30 seconds to ensure assets have arrived...'']) (\<lambda>_.
             bind (\<lambda>s1. (Inr (), sleep 30000 s1)) (\<lambda>_.
             bind (executeStaking env (destinationAddress crossChainResult)) (\<lambda>stakingResult.
             ret (crossChainResult, stakingResult))))) s of
          (Inr (crossChainResult, stakingResult), s1) \<Rightarrow>
            (Some (200, StakeSuccess ''Cross-chain staking operation completed successfully''
                          crossChainResult stakingResult), s1)
        | (Inl error, s1) \<Rightarrow>
            (case error of
               ErrorObj nm msg \<Rightarrow>
                 Some (500, Failure (if msg = [] then ''Error executing cross-chain staking'' else msg))
             | ThrownString str \<Rightarrow> Some (500, Failure ''Error executing cross-chain staking'')
             | ThrownUndefined \<Rightarrow> None,
             console_error [Str ''API error:'', Err error] s1))"

section \<open>The staking contract\<close>

text \<open>
  \<^verbatim>\<open>CrossChainStaking.sol\<close>, Solidity 0.8: \<^verbatim>\<open>uint256\<close> arithmetic is checked and a failed check,
  a failed \<^verbatim>\<open>require\<close> or a reverting token call reverts the whole call (\<open>Inl\<close>, the state
  is the caller's unchanged one). The two token contracts are reached through interfaces:
  their calls are parameters acting on a token state of their own.
\<close>

type_synonym uint256 = "256 word"
type_synonym address = "160 word"

datatype revert = Revert string | Panic nat

record StakeInfo =
  stakedAmount :: uint256
  loanedAmount :: uint256

datatype event =
    Staked address uint256 uint256
  | Unstaked address uint256 uint256

record 't tokens =
  safeTransferFrom :: "address \<Rightarrow> address \<Rightarrow> uint256 \<Rightarrow> 't \<Rightarrow> revert + 't"
  safeTransfer :: "address \<Rightarrow> uint256 \<Rightarrow> 't \<Rightarrow> revert + 't"
  mint :: "address \<Rightarrow> uint256 \<Rightarrow> 't \<Rightarrow> revert + 't"
  burn :: "address \<Rightarrow> uint256 \<Rightarrow> 't \<Rightarrow> revert + 't"

record 't CrossChainStaking =
  loanRatio :: uint256
  stakes :: "address \<Rightarrow> StakeInfo"
  totalStaked :: uint256
  emitted :: "event list"
  token_state :: 't

definition checked_add :: "uint256 \<Rightarrow> uint256 \<Rightarrow> revert + uint256" where
  "checked_add a b = (if unat a + unat b < 2 ^ 256 then Inr (a + b) else Inl (Panic 17))"

definition checked_sub :: "uint256 \<Rightarrow> uint256 \<Rightarrow> revert + uint256" where
  "checked_sub a b = (if unat b \<le> unat a then Inr (a - b) else Inl (Panic 17))"

definition checked_mul :: "uint256 \<Rightarrow> uint256 \<Rightarrow> revert + uint256" where
  "checked_mul a b = (if unat a * unat b < 2 ^ 256 then Inr (a * b) else Inl (Panic 17))"

definition checked_div :: "uint256 \<Rightarrow> uint256 \<Rightarrow> revert + uint256" where
  "checked_div a b = (if b = 0 then Inl (Panic 18) else Inr (a div b))"

definition require :: "bool \<Rightarrow> string \<Rightarrow> revert + unit" where
  "require cond msg = (if cond then Inr () else Inl (Revert msg))"

definition and_then :: "revert + 'a \<Rightarrow> ('a \<Rightarrow> revert + 'b) \<Rightarrow> revert + 'b" where
  "and_then r f = (case r of Inl e \<Rightarrow> Inl e | Inr v \<Rightarrow> f v)"

text \<open>\<^verbatim>\<open>stake(amount)\<close> called by \<open>sender\<close> on the contract at address \<open>this\<close>.\<close>

definition stake ::
  "'t tokens \<Rightarrow> address \<Rightarrow> address \<Rightarrow> uint256 \<Rightarrow> 't CrossChainStaking \<Rightarrow> revert + 't CrossChainStaking" where
  "stake tok this sender amt st =
     and_then (require (amt > 0) ''Amount must be positive'') (\<lambda>_.
     and_then (safeTransferFrom tok sender this amt (token_state st)) (\<lambda>t1.
     and_then (checked_mul amt (loanRatio st)) (\<lambda>loanAmount.
     and_then (checked_add (stakedAmount (stakes st sender)) amt) (\<lambda>staked1.
     and_then (checked_add (loanedAmount (stakes st sender)) loanAmount) (\<lambda>loaned1.
     and_then (checked_add (totalStaked st) amt) (\<lambda>total1.
     and_then (mint tok sender loanAmount t1) (\<lambda>t2.
     Inr (st\<lparr>stakes := (stakes st)(sender := \<lparr>stakedAmount = staked1, loanedAmount = loaned1\<rparr>),
             totalStaked := total1,
             emitted := emitted st @ [Staked sender amt loanAmount],
             token_state := t2\<rparr>))))))))"

text \<open>\<^verbatim>\<open>unstake(amount)\<close> called by \<open>sender\<close>.\<close>

definition unstake ::
  "'t tokens \<Rightarrow> address \<Rightarrow> uint256 \<Rightarrow> 't CrossChainStaking \<Rightarrow> revert + 't CrossChainStaking" where
  "unstake tok sender amt st =
     and_then (require (amt > 0) ''Amount must be positive'') (\<lambda>_.
     and_then (require (stakedAmount (stakes st sender) \<ge> amt) ''Insufficient staked amount'') (\<lambda>_.
     and_then (checked_mul amt (loanedAmount (stakes st sender))) (\<lambda>product.
     and_then (checked_div product (stakedAmount (stakes st sender))) (\<lambda>burnAmount.
     and_then (require (burnAmount > 0) ''Burn amount too small'') (\<lambda>_.
     and_then (checked_sub (stakedAmount (stakes st sender)) amt) (\<lambda>staked1.
     and_then (checked_sub (loanedAmount (stakes st sender)) burnAmount) (\<lambda>loaned1.
     and_then (checked_sub (totalStaked st) amt) (\<lambda>total1.
     and_then (burn tok sender burnAmount (token_state st)) (\<lambda>t1.
     and_then (safeTransfer tok sender amt t1) (\<lambda>t2.
     Inr (st\<lparr>stakes := (stakes st)(sender := \<lparr>stakedAmount = staked1, loanedAmount = loaned1\<rparr>),
             totalStaked := total1,
             emitted := emitted st @ [Unstaked sender amt burnAmount],
             token_state := t2\<rparr>)))))))))))"

section \<open>Auxiliary notions for the proofs\<close>

text \<open>
  A state with empty logs around a world, and the state \<open>t\<close> with the logs of \<open>s\<close> put in
  front of its own.
\<close>

definition fresh :: "'w \<Rightarrow> 'w state" where
  "fresh w = \<lparr>world = w, trace = [], console = [], sleeps = []\<rparr>"

definition after :: "'w state \<Rightarrow> 'w state \<Rightarrow> 'w state" where
  "after s t = \<lparr>world = world t, trace = trace s @ trace t, console = console s @ console t,
                sleeps = sleeps s @ sleeps t\<rparr>"

text \<open>The first \<open>k\<close> delays of the backoff that starts at \<open>d\<close>.\<close>

fun backoff_delays :: "rat \<Rightarrow> nat \<Rightarrow> rat list" where
  "backoff_delays d 0 = []"
| "backoff_delays d (Suc k) = d # backoff_delays (min (d * (3 / 2)) 15000) k"

text \<open>A program is framed when the logs already written do not influence what it does.\<close>

definition framed :: "('w, 'a) prog \<Rightarrow> bool" where
  "framed m \<longleftrightarrow> (\<forall>s t. m (after s t) = (fst (m t), after s (snd (m t))))"

text \<open>A call that rejects every time; the rejection carries the number of earlier calls.\<close>

definition always_fails :: "(nat, unit) io" where
  "always_fails w = (Inl (ThrownString (replicate w CHR ''x'')), Suc w)"



text \<open>
  A world that counts the calls it has answered, with collaborators that accept every call,
  and variants of it in which one bridge call answers differently.
\<close>

definition demo_env :: "nat env" where
  "demo_env =
     \<lparr>wormhole = (\<lambda>w. (Inr (), Suc w)),
      getSigner = (\<lambda>chain w.
        (Inr \<lparr>ss_chain = chain, ss_signer = chain @ ''-signer'', ss_address = chain @ ''-address''\<rparr>,
         Suc w)),
      getTokenDecimals = (\<lambda>token chain w. (Inr 9, Suc w)),
      amount_units_parse = (\<lambda>amt dec.
        if amt = ''0.01'' then Inr 10000000 else Inl (ErrorObj ''Error'' ''invalid amount'')),
      wh_tokenTransfer = (\<lambda>token units src dst automatic w.
        (Inr \<lparr>xfer_id = 0, transfer_automatic = automatic\<rparr>, Suc w)),
      quoteTransfer = (\<lambda>src dst x w. (Inr \<lparr>destinationToken_amount = 10000000\<rparr>, Suc w)),
      initiateTransfer = (\<lambda>x sg w. (Inr [''tx-1'', ''tx-2''], Suc w)),
      fetchAttestation = (\<lambda>x timeout w. (Inr [''vaa''], Suc w)),
      completeTransfer = (\<lambda>x sg w. (Inr [''tx-3''], Suc w)),
      ETH_PRIVATE_KEY = Some ''key'',
      new_Wallet = (\<lambda>key. Inr ''0xuser''),
      contract_minters = (\<lambda>token account w. (Inr True, Suc w)),
      contract_addMinter = (\<lambda>token account w. (Inr ''tx-4'', Suc w)),
      tx_wait = (\<lambda>tx w. (Inr (), Suc w)),
      contract_balanceOf = (\<lambda>token account w. (Inr 0, Suc w)),
      contract_decimals = (\<lambda>token w. (Inr 8, Suc w)),
      contract_approve = (\<lambda>token spender amt w. (Inr ''tx-5'', Suc w)),
      contract_stake = (\<lambda>amt w. (Inr ''tx-6'', Suc w)),
      contract_unstake = (\<lambda>amt w. (Inr ''tx-7'', Suc w)),
      contract_getUserStake = (\<lambda>user w. (Inr (0, 0), Suc w)),
      formatUnits = (\<lambda>v dec. ''#'')\<rparr>"

definition demo_route :: "bool \<Rightarrow> route" where
  "demo_route automatic =
     \<lparr>route_token = (''Solana'', ''native''), route_amount = 10000000,
      route_source = \<lparr>ss_chain = ''Solana'', ss_signer = ''Solana-signer'', ss_address = ''Solana-address''\<rparr>,
      route_destination = \<lparr>ss_chain = ''Sepolia'', ss_signer = ''Sepolia-signer'', ss_address = ''Sepolia-address''\<rparr>,
      route_automatic = automatic\<rparr>"

definition quote_env :: "int \<Rightarrow> nat env" where
  "quote_env q = demo_env\<lparr>quoteTransfer := (\<lambda>src dst x w. (Inr \<lparr>destinationToken_amount = q\<rparr>, Suc w))\<rparr>"

definition completed_env :: "nat env" where
  "completed_env =
     demo_env\<lparr>completeTransfer :=
       (\<lambda>x sg w. (Inl (ErrorObj ''Error'' ''transfer already completed''), Suc w))\<rparr>"

definition timeout_env :: "nat env" where
  "timeout_env =
     demo_env\<lparr>fetchAttestation :=
       (\<lambda>x timeout w. (Inl (ErrorObj ''Error'' ''Timed out waiting for attestation''), Suc w))\<rparr>"

definition initiate_fail_env :: "nat env" where
  "initiate_fail_env =
     demo_env\<lparr>initiateTransfer :=
       (\<lambda>x sg w. (Inl (ErrorObj ''Error'' ''insufficient funds''), Suc w))\<rparr>"

text \<open>
  The progress of an approval along a trace: not yet approved, approve transaction submitted
  (the approve call succeeded), approval confirmed (a wait succeeded after that). A trace is
  guarded when each dependent call in it is made in the phase \<open>Confirmed\<close>.
\<close>

datatype approval = NotApproved | Submitted | Confirmed

fun is_wait :: "call \<Rightarrow> bool" where
  "is_wait (TxWait tx) = True"
| "is_wait _ = False"

definition approval_step :: "(call \<Rightarrow> bool) \<Rightarrow> approval \<Rightarrow> call \<times> bool \<Rightarrow> approval" where
  "approval_step isA ph ev =
     (if isA (fst ev) \<and> snd ev then (if ph = Confirmed then Confirmed else Submitted)
      else if ph = Submitted \<and> snd ev \<and> is_wait (fst ev) then Confirmed
      else ph)"

fun guarded :: "(call \<Rightarrow> bool) \<Rightarrow> (call \<Rightarrow> bool) \<Rightarrow> approval \<Rightarrow> (call \<times> bool) list \<Rightarrow> bool" where
  "guarded isA isD ph [] = True"
| "guarded isA isD ph (ev # evs) =
     ((isD (fst ev) \<longrightarrow> ph = Confirmed) \<and> guarded isA isD (approval_step isA ph ev) evs)"



text \<open>Here the first call the world answers is rejected; every balance is 5.\<close>

definition short_env :: "nat env" where
  "short_env =
     demo_env\<lparr>contract_getUserStake := (\<lambda>user w.
                 (if w = 0 then Inl (ErrorObj ''Error'' ''network error'')
                  else Inr (2000000000, 20000000000), Suc w)),
              contract_balanceOf := (\<lambda>token account w. (Inr 5, Suc w))\<rparr>"

section \<open>Basic facts\<close>

text \<open>\<open>js_includes\<close> is the substring test.\<close>

lemma startsWith_iff: "startsWith str p \<longleftrightarrow> (\<exists>post. str = p @ post)"
  by (induction str p rule: startsWith.induct) auto

lemma js_includes_iff: "js_includes str needle \<longleftrightarrow> (\<exists>pre post. str = pre @ needle @ post)"
proof (induction str)
  case Nil
  then show ?case by auto
next
  case (Cons c cs)
  show ?case
  proof
    assume "js_includes (c # cs) needle"
    then consider "startsWith (c # cs) needle" | "js_includes cs needle" by auto
    then show "\<exists>pre post. c # cs = pre @ needle @ post"
    proof cases
      case 1
      then obtain post where "c # cs = needle @ post" by (auto simp: startsWith_iff)
      then have "c # cs = [] @ needle @ post" by simp
      then show ?thesis by blast
    next
      case 2
      with Cons.IH obtain pre post where "cs = pre @ needle @ post" by blast
      then have "c # cs = (c # pre) @ needle @ post" by simp
      then show ?thesis by blast
    qed
  next
    assume "\<exists>pre post. c # cs = pre @ needle @ post"
    then obtain pre post where e: "c # cs = pre @ needle @ post" by blast
    show "js_includes (c # cs) needle"
    proof (cases pre)
      case Nil
      with e have "startsWith (c # cs) needle" by (auto simp: startsWith_iff)
      then show ?thesis by simp
    next
      case (Cons p pre')
      with e have "cs = pre' @ needle @ post" by simp
      with Cons.IH have "js_includes cs needle" by blast
      then show ?thesis by simp
    qed
  qed
qed

lemma invoke_fields [simp]:
  "console (snd (invoke c op s)) = console s"
  "sleeps (snd (invoke c op s)) = sleeps s"
  "trace (snd (invoke c op s)) = trace s @ [(c, \<not> isl (fst (op (world s))))]"
  "world (snd (invoke c op s)) = snd (op (world s))"
  "fst (invoke c op s) = fst (op (world s))"
  by (simp_all add: invoke_def split: prod.splits)

lemma console_log_fields [simp]:
  "world (console_log ps s) = world s"
  "trace (console_log ps s) = trace s"
  "sleeps (console_log ps s) = sleeps s"
  "console (console_log ps s) = console s @ [(LogLevel, ps)]"
  by (simp_all add: console_log_def)

lemma console_error_fields [simp]:
  "world (console_error ps s) = world s"
  "trace (console_error ps s) = trace s"
  "sleeps (console_error ps s) = sleeps s"
  "console (console_error ps s) = console s @ [(ErrorLevel, ps)]"
  by (simp_all add: console_error_def)

lemma sleep_fields [simp]:
  "world (sleep d s) = world s"
  "trace (sleep d s) = trace s"
  "sleeps (sleep d s) = sleeps s @ [d]"
  "console (sleep d s) = console s"
  by (simp_all add: sleep_def)

lemma after_fields [simp]:
  "world (after s t) = world t"
  "trace (after s t) = trace s @ trace t"
  "console (after s t) = console s @ console t"
  "sleeps (after s t) = sleeps s @ sleeps t"
  by (simp_all add: after_def)

lemma fresh_fields [simp]:
  "world (fresh w) = w"
  "trace (fresh w) = []"
  "console (fresh w) = []"
  "sleeps (fresh w) = []"
  by (simp_all add: fresh_def)

lemma after_fresh [simp]: "after s (fresh (world s)) = s"
  by (simp add: after_def fresh_def)

lemma after_console_log: "after s (console_log ps t) = console_log ps (after s t)"
  by (simp add: after_def console_log_def)

lemma after_console_error: "after s (console_error ps t) = console_error ps (after s t)"
  by (simp add: after_def console_error_def)

lemma after_sleep: "after s (sleep d t) = sleep d (after s t)"
  by (simp add: after_def sleep_def)

lemma framedD: "framed m \<Longrightarrow> m (after s t) = (fst (m t), after s (snd (m t)))"
  by (simp add: framed_def)

lemma framed_fresh: "framed m \<Longrightarrow> m s = (fst (m (fresh (world s))), after s (snd (m (fresh (world s)))))"
  using framedD[of m s "fresh (world s)"] by simp

lemma framed_invoke [simp, intro!]: "framed (invoke c op)"
  by (simp add: framed_def invoke_def after_def split: prod.splits)

lemma framed_ret [simp, intro!]: "framed (ret v)"
  by (simp add: framed_def ret_def)

lemma framed_throw [simp, intro!]: "framed (throw e)"
  by (simp add: framed_def throw_def)

lemma framed_lift [simp, intro!]: "framed (lift r)"
  by (simp add: framed_def lift_def)

lemma framed_log [simp, intro!]: "framed (log ps)"
  by (simp add: framed_def log_def)

lemma framed_log_error [simp, intro!]: "framed (log_error ps)"
  by (simp add: framed_def log_error_def)

lemma framed_bind [intro!]: "framed m \<Longrightarrow> (\<And>v. framed (f v)) \<Longrightarrow> framed (bind m f)"
  unfolding framed_def bind_def
  by (auto split: prod.splits sum.splits)

lemma framed_try_catch [intro!]: "framed m \<Longrightarrow> (\<And>e. framed (h e)) \<Longrightarrow> framed (try_catch m h)"
  unfolding framed_def try_catch_def
  by (auto split: prod.splits sum.splits)

declare executeWithRetry_loop.simps [simp del]

lemma framed_loop:
  assumes "framed fn"
  shows "executeWithRetry_loop fn n i d le (after s t) =
         (fst (executeWithRetry_loop fn n i d le t), after s (snd (executeWithRetry_loop fn n i d le t)))"
proof (induction m \<equiv> "n - i" arbitrary: i d le t)
  case 0
  then show ?case by (simp add: executeWithRetry_loop.simps[of _ n i])
next
  case (Suc m)
  then have lt: "i < n" and m: "m = n - Suc i" by simp_all
  note IH = Suc.hyps(1)[OF m]
  show ?case
    using lt framedD[OF assms, of s t]
    by (cases "fn t")
       (auto simp: executeWithRetry_loop.simps[of _ n i] Let_def IH
          after_console_log[symmetric] after_sleep[symmetric] split: sum.splits)
qed

lemma framed_executeWithRetry [intro!]: "framed fn \<Longrightarrow> framed (executeWithRetry fn n d)"
  by (simp add: framed_def executeWithRetry_def framed_loop)

section \<open>Properties of the retry executor\<close>

lemma retry_loop_trace:
  "executeWithRetry_loop (invoke c op) n i d le s = (r, s') \<Longrightarrow>
   \<exists>k. k \<le> n - i \<and> (isl r \<longrightarrow> k = n - i) \<and>
       trace s' = trace s @ replicate k (c, False) @ (if isl r then [] else [(c, True)])"
proof (induction m \<equiv> "n - i" arbitrary: i d le s r s')
  case 0
  then show ?case
    by (auto simp: executeWithRetry_loop.simps[of _ n i])
next
  case (Suc m)
  then have lt: "i < n" by simp
  obtain r1 s1 where f: "invoke c op s = (r1, s1)" by (cases "invoke c op s")
  have tr1: "trace s1 = trace s @ [(c, \<not> isl r1)]"
    using invoke_fields(3)[of c op s] invoke_fields(5)[of c op s] f by simp
  show ?case
  proof (cases r1)
    case (Inr v)
    with lt f Suc.prems have "r = Inr v" "s' = s1"
      by (simp_all add: executeWithRetry_loop.simps[of _ n i])
    with tr1 Inr show ?thesis
      by (intro exI[of _ 0]) simp
  next
    case (Inl e)
    from Suc.hyps(2) have m: "m = n - (i + 1)" by simp
    from lt f Inl Suc.prems obtain d2 s2 where
      rec: "executeWithRetry_loop (invoke c op) n (i + 1) d2 e s2 = (r, s')"
      and tr2: "trace s2 = trace s1"
      by (simp add: executeWithRetry_loop.simps[of _ n i] Let_def split: if_splits)
    from Suc.hyps(1)[OF m rec] obtain k where
      k: "k \<le> n - (i + 1)" "isl r \<longrightarrow> k = n - (i + 1)"
         "trace s' = trace s2 @ replicate k (c, False) @ (if isl r then [] else [(c, True)])"
      by blast
    show ?thesis
      using k lt tr1 tr2 Inl
      by (intro exI[of _ "Suc k"]) (auto simp: replicate_app_Cons_same)
  qed
qed

lemma retry_trace:
  assumes "executeWithRetry (invoke c op) n d s = (r, s')"
  shows "\<exists>k. k \<le> n \<and> (isl r \<longrightarrow> k = n) \<and>
       trace s' = trace s @ replicate k (c, False) @ (if isl r then [] else [(c, True)])"
  using retry_loop_trace[of c op n 0 d ThrownUndefined s r s'] assms
  by (simp add: executeWithRetry_def)

lemma retry_loop_exhausted:
  assumes fails: "\<forall>w. isl (fst (op w))"
  shows "i \<le> n \<Longrightarrow>
    \<exists>s'. executeWithRetry_loop (invoke c op) n i d le s =
            (Inl (if i < n then projl (fst (op (((\<lambda>w. snd (op w)) ^^ (n - 1 - i)) (world s)))) else le), s')
        \<and> world s' = ((\<lambda>w. snd (op w)) ^^ (n - i)) (world s)
        \<and> trace s' = trace s @ replicate (n - i) (c, False)"
proof (induction m \<equiv> "n - i" arbitrary: i d le s)
  case 0
  then have "\<not> i < n" by simp
  then show ?case
    by (subst executeWithRetry_loop.simps) simp
next
  case (Suc m)
  then have lt: "i < n" and m: "m = n - Suc i" and le': "Suc i \<le> n" by simp_all
  obtain e w1 where op: "op (world s) = (Inl e, w1)"
    using fails[rule_format, of "world s"] by (cases "op (world s)") (auto simp: isl_def)
  define s1 where "s1 = snd (invoke c op s)"
  have inv: "invoke c op s = (Inl e, s1)"
    unfolding s1_def using op by (simp add: invoke_def)
  have w1: "world s1 = w1" and t1: "trace s1 = trace s @ [(c, False)]"
    unfolding s1_def using op by simp_all
  note IH = Suc.hyps(1)[OF m le']
  have step: "((\<lambda>w. snd (op w)) ^^ Suc k) (world s) = ((\<lambda>w. snd (op w)) ^^ k) w1" for k
    using op by (simp add: funpow_Suc_right del: funpow.simps)
  have pow: "((\<lambda>w. snd (op w)) ^^ (n - Suc i)) w1 = ((\<lambda>w. snd (op w)) ^^ (n - i)) (world s)"
  proof -
    have "n - i = Suc (n - Suc i)" using lt by simp
    then show ?thesis using step[of "n - Suc i"] by simp
  qed
  have pow2: "Suc i < n \<Longrightarrow> ((\<lambda>w. snd (op w)) ^^ (n - 1 - Suc i)) w1 = ((\<lambda>w. snd (op w)) ^^ (n - 1 - i)) (world s)"
  proof -
    assume "Suc i < n"
    then have "n - 1 - i = Suc (n - 1 - Suc i)" by simp
    then show ?thesis using step[of "n - 1 - Suc i"] by simp
  qed
  have rep: "replicate (n - i) (c, False) = (c, False) # replicate (n - Suc i) (c, False)"
    using lt by (cases "n - i") (simp_all add: Suc_diff_Suc)
  have last: "\<not> Suc i < n \<Longrightarrow> projl (fst (op (((\<lambda>w. snd (op w)) ^^ (n - 1 - i)) (world s)))) = e"
    using lt op by (simp add: not_less)
  show ?case
  proof (cases "i < n - 1")
    case True
    then have "Suc i < n" by simp
    with IH[of "min (d * (3 / 2)) 15000" e "sleep d (console_log [Str ''Waiting '', Quantity (d / 1000), Str '' seconds before retrying...''] (console_log [Str ''Attempt '', Num (i + 1), Str ''/'', Num n, Str '' failed: '', Str (error_text e)] s1))"]
    show ?thesis
      using lt True inv w1 t1 pow pow2 rep
      by (auto simp: executeWithRetry_loop.simps[of _ n i] Let_def)
  next
    case False
    then have n: "\<not> Suc i < n" using lt by simp
    with IH[of d e "console_log [Str ''Attempt '', Num (i + 1), Str ''/'', Num n, Str '' failed: '', Str (error_text e)] s1"]
    show ?thesis
      using lt False inv w1 t1 pow last rep
      by (auto simp: executeWithRetry_loop.simps[of _ n i] Let_def)
  qed
qed

text \<open>
  Claim C2. With \<open>maxRetries = n \<ge> 1\<close>, an operation that rejects on every call is called
  exactly \<open>n\<close> times (the trace gains \<open>n\<close> failed calls and the world has answered \<open>n\<close> times)
  and the executor then fails with the rejection of the last call. The failure is that
  rejection itself: \<^verbatim>\<open>throw lastError\<close>.
\<close>

theorem executeWithRetry_exhausted:
  assumes "1 \<le> n" and "\<forall>w. isl (fst (op w))"
  shows "\<exists>e s'. executeWithRetry (invoke c op) n d s = (Inl e, s')
           \<and> fst (op (((\<lambda>w. snd (op w)) ^^ (n - 1)) (world s))) = Inl e
           \<and> world s' = ((\<lambda>w. snd (op w)) ^^ n) (world s)
           \<and> trace s' = trace s @ replicate n (c, False)"
proof -
  from retry_loop_exhausted[OF assms(2), of 0 n c d ThrownUndefined s] assms(1)
  obtain s' where
    r: "executeWithRetry (invoke c op) n d s =
          (Inl (projl (fst (op (((\<lambda>w. snd (op w)) ^^ (n - 1)) (world s))))), s')"
    and w: "world s' = ((\<lambda>w. snd (op w)) ^^ n) (world s)"
    and t: "trace s' = trace s @ replicate n (c, False)"
    by (auto simp: executeWithRetry_def)
  have "isl (fst (op (((\<lambda>w. snd (op w)) ^^ (n - 1)) (world s))))"
    using assms(2) by blast
  then have "fst (op (((\<lambda>w. snd (op w)) ^^ (n - 1)) (world s))) =
             Inl (projl (fst (op (((\<lambda>w. snd (op w)) ^^ (n - 1)) (world s)))))"
    by simp
  with r w t show ?thesis by blast
qed




lemma backoff_length [simp]: "length (backoff_delays d k) = k"
  by (induction k arbitrary: d) simp_all



theorem executeWithRetry_exhausted_witness:
  "(1::nat) \<le> 3 \<and> (\<forall>w. isl (fst (always_fails w)))
   \<and> fst (executeWithRetry (invoke (Stake 1) always_fails) 3 3000 (fresh 0)) = Inl (ThrownString ''xx'')
   \<and> world (snd (executeWithRetry (invoke (Stake 1) always_fails) 3 3000 (fresh 0))) = 3
   \<and> trace (snd (executeWithRetry (invoke (Stake 1) always_fails) 3 3000 (fresh 0)))
       = [(Stake 1, False), (Stake 1, False), (Stake 1, False)]"
  using executeWithRetry_exhausted[of 3 always_fails "Stake 1" 3000 "fresh 0"]
  by (simp add: executeWithRetry_def executeWithRetry_loop.simps invoke_def always_fails_def
        fresh_def console_log_def sleep_def Let_def)



section \<open>Properties of the staking contract\<close>

















section \<open>Properties of the bridge transfer\<close>

lemmas prog_defs = bind_def invoke_def log_def log_error_def ret_def throw_def lift_def try_catch_def

text \<open>
  Claim C3, as amended. The SDK keeps the flag it was given. When automatic completion was
  requested and the quoted destination amount is negative, the transfer fails with the fee
  error right after the quote: neither initiate nor completion is called. When automatic
  completion was not requested, or the quoted amount is zero or more, the check does not
  fire and the transfer goes on to initiate.
\<close>

theorem fee_check:
  assumes "wh_tokenTransfer env (route_token route) (route_amount route)
             (ss_address (route_source route)) (ss_address (route_destination route))
             (route_automatic route) (world s) = (Inr x, w1)"
    and "transfer_automatic x = route_automatic route"
    and "quoteTransfer env (ss_chain (route_source route)) (ss_chain (route_destination route)) x w1
           = (Inr q, w2)"
  shows "(route_automatic route \<and> destinationToken_amount q < 0 \<longrightarrow>
            tokenTransfer env route s =
              (Inl fee_error,
               s\<lparr>world := w2,
                 trace := trace s @
                   [(Wh_tokenTransfer (route_amount route) (ss_address (route_source route))
                       (ss_address (route_destination route)) (route_automatic route), True),
                    (QuoteTransfer, True)]\<rparr>))
       \<and> (\<not> route_automatic route \<or> 0 \<le> destinationToken_amount q \<longrightarrow>
            (\<exists>ok rest. trace (snd (tokenTransfer env route s)) =
               trace s @
                 [(Wh_tokenTransfer (route_amount route) (ss_address (route_source route))
                     (ss_address (route_destination route)) (route_automatic route), True),
                  (QuoteTransfer, True), (InitiateTransfer, ok)] @ rest))"
proof (intro conjI impI)
  assume "route_automatic route \<and> destinationToken_amount q < 0"
  then show "tokenTransfer env route s =
              (Inl fee_error,
               s\<lparr>world := w2,
                 trace := trace s @
                   [(Wh_tokenTransfer (route_amount route) (ss_address (route_source route))
                       (ss_address (route_destination route)) (route_automatic route), True),
                    (QuoteTransfer, True)]\<rparr>)"
    using assms by (simp add: tokenTransfer_def prog_defs)
next
  assume "\<not> route_automatic route \<or> 0 \<le> destinationToken_amount q"
  then have pass: "\<not> (transfer_automatic x \<and> destinationToken_amount q < 0)"
    using assms(2) by auto
  show "\<exists>ok rest. trace (snd (tokenTransfer env route s)) =
               trace s @
                 [(Wh_tokenTransfer (route_amount route) (ss_address (route_source route))
                     (ss_address (route_destination route)) (route_automatic route), True),
                  (QuoteTransfer, True), (InitiateTransfer, ok)] @ rest"
    using assms(1,3) pass
    by (auto simp: tokenTransfer_def prog_defs console_log_def split: prod.splits sum.splits)
qed

lemma framed_if [intro!]: "framed a \<Longrightarrow> framed b \<Longrightarrow> framed (if c then a else b)"
  by simp

lemma framed_tokenTransfer [intro!, simp]: "framed (tokenTransfer env route)"
  unfolding tokenTransfer_def by (intro framed_bind framed_if framed_try_catch) simp_all

lemma framed_result: "framed m \<Longrightarrow> world t = w \<Longrightarrow> fst (m t) = fst (m (fresh w))"
  using framed_fresh[of m t] by (metis fst_conv)

text \<open>
  Claim C5. After a successful setup, quote, initiate and attestation, let completion reject
  with an error whose string form is \<open>str\<close>. If \<open>str\<close> includes \<^verbatim>\<open>transfer already completed\<close>,
  \<^verbatim>\<open>tokenTransfer\<close> does not raise, the last two console lines are the two informational lines
  (written with \<^verbatim>\<open>console.log\<close>), and \<^verbatim>\<open>executeCrossChainTransfer\<close> returns the signers'
  addresses, the requested amount and the first source transaction id. Otherwise
  \<^verbatim>\<open>tokenTransfer\<close> raises the same error again.
\<close>

theorem already_completed_is_success:
  assumes "wormhole env (world s) = (Inr u, w1)"
    and "getSigner env ''Solana'' w1 = (Inr src, w2)"
    and "getSigner env ''Sepolia'' w2 = (Inr dst, w3)"
    and "getTokenDecimals env (''Solana'', ''native'') ''Solana'' w3 = (Inr dec, w4)"
    and "amount_units_parse env amt dec = Inr units"
    and "wh_tokenTransfer env (''Solana'', ''native'') units (ss_address src) (ss_address dst) False w4
           = (Inr x, w5)"
    and "quoteTransfer env (ss_chain src) (ss_chain dst) x w5 = (Inr q, w6)"
    and "\<not> (transfer_automatic x \<and> destinationToken_amount q < 0)"
    and "initiateTransfer env x (ss_signer src) w6 = (Inr srcTxids, w7)"
    and "fetchAttestation env x 60000 w7 = (Inr att, w8)"
    and "completeTransfer env x (ss_signer dst) w8 = (Inl e, w9)"
    and "js_toString e = Inr str"
    and "route = \<lparr>route_token = (''Solana'', ''native''), route_amount = units, route_source = src,
                   route_destination = dst, route_automatic = False\<rparr>"
  shows "(js_includes str ''transfer already completed'' \<longrightarrow>
            fst (tokenTransfer env route (fresh w4)) = Inr srcTxids
          \<and> fst (executeCrossChainTransfer env amt s) =
              Inr \<lparr>sourceAddress = ss_address src, destinationAddress = ss_address dst,
                   amount = amt, wormholeHash = js_index srcTxids 0\<rparr>
          \<and> (\<exists>pre. console (snd (executeCrossChainTransfer env amt s)) =
                console s @ pre @
                [(LogLevel, [Str ''Transfer has already been completed, possibly automatically by a relayer or successfully completed previously'']),
                 (LogLevel, [Str ''This is not an error, your assets should have reached the destination chain''])]))
       \<and> (\<not> js_includes str ''transfer already completed'' \<longrightarrow>
            fst (tokenTransfer env route (fresh w4)) = Inl e)"
  using assms
  by (auto simp: executeCrossChainTransfer_def tokenTransfer_def prog_defs console_log_def fresh_def
        Let_def)

text \<open>
  Claim C10. After a successful setup, whatever \<^verbatim>\<open>tokenTransfer\<close> raises,
  \<^verbatim>\<open>executeCrossChainTransfer\<close> returns normally: the signers' addresses, the requested amount
  string, and the empty string as \<^verbatim>\<open>wormholeHash\<close>.
\<close>

theorem failed_transfer_returns_result:
  assumes "wormhole env (world s) = (Inr u, w1)"
    and "getSigner env ''Solana'' w1 = (Inr src, w2)"
    and "getSigner env ''Sepolia'' w2 = (Inr dst, w3)"
    and "getTokenDecimals env (''Solana'', ''native'') ''Solana'' w3 = (Inr dec, w4)"
    and "amount_units_parse env amt dec = Inr units"
    and "fst (tokenTransfer env
                \<lparr>route_token = (''Solana'', ''native''), route_amount = units, route_source = src,
                 route_destination = dst, route_automatic = False\<rparr> (fresh w4)) = Inl e"
  shows "fst (executeCrossChainTransfer env amt s) =
           Inr \<lparr>sourceAddress = ss_address src, destinationAddress = ss_address dst,
                amount = amt, wormholeHash = Some ''''\<rparr>"
proof -
  let ?route = "\<lparr>route_token = (''Solana'', ''native''), route_amount = units, route_source = src,
                 route_destination = dst, route_automatic = False\<rparr>"
  have fail: "r = Inl e" if "tokenTransfer env ?route t = (r, t')" "world t = w4" for t r t'
    using framed_result[OF framed_tokenTransfer that(2), of env ?route] assms(6) that(1) by simp
  show ?thesis
    using assms(1-5)
    by (auto simp: executeCrossChainTransfer_def prog_defs js_index_def Let_def
          split: prod.splits sum.splits dest!: fail)
qed

lemmas demo_defs = demo_env_def demo_route_def fresh_def console_log_def console_error_def
  sleep_def js_index_def Let_def

theorem fee_check_witness:
  "tokenTransfer (quote_env (- 1)) (demo_route True) (fresh 0) =
     (Inl fee_error,
      \<lparr>world = 2,
       trace = [(Wh_tokenTransfer 10000000 ''Solana-address'' ''Sepolia-address'' True, True),
                (QuoteTransfer, True)],
       console = [], sleeps = []\<rparr>)
   \<and> trace (snd (tokenTransfer (quote_env (- 1)) (demo_route False) (fresh 0))) =
       [(Wh_tokenTransfer 10000000 ''Solana-address'' ''Sepolia-address'' False, True),
        (QuoteTransfer, True), (InitiateTransfer, True), (FetchAttestation 60000, True),
        (CompleteTransfer, True)]"
  using fee_check[of "quote_env (- 1)" "demo_route True" "fresh 0"
          "\<lparr>xfer_id = 0, transfer_automatic = True\<rparr>" 1 "\<lparr>destinationToken_amount = - 1\<rparr>" 2]
        fee_check[of "quote_env (- 1)" "demo_route False" "fresh 0"
          "\<lparr>xfer_id = 0, transfer_automatic = False\<rparr>" 1 "\<lparr>destinationToken_amount = - 1\<rparr>" 2]
  by (simp add: tokenTransfer_def prog_defs demo_defs quote_env_def fee_error_def)

theorem fee_check_zero_quote_counterexample:
  "route_automatic (demo_route True)
   \<and> fst (quoteTransfer (quote_env 0) ''Solana'' ''Sepolia'' \<lparr>xfer_id = 0, transfer_automatic = True\<rparr> 1)
       = Inr \<lparr>destinationToken_amount = 0\<rparr>
   \<and> fst (tokenTransfer (quote_env 0) (demo_route True) (fresh 0)) = Inr [''tx-1'', ''tx-2'']
   \<and> trace (snd (tokenTransfer (quote_env 0) (demo_route True) (fresh 0))) =
       [(Wh_tokenTransfer 10000000 ''Solana-address'' ''Sepolia-address'' True, True),
        (QuoteTransfer, True), (InitiateTransfer, True), (FetchAttestation 60000, True),
        (CompleteTransfer, True)]"
  by (simp add: tokenTransfer_def prog_defs demo_defs quote_env_def)

theorem already_completed_is_success_witness:
  "completeTransfer completed_env \<lparr>xfer_id = 0, transfer_automatic = False\<rparr> ''Sepolia-signer'' 8
     = (Inl (ErrorObj ''Error'' ''transfer already completed''), 9)
   \<and> js_toString (ErrorObj ''Error'' ''transfer already completed'') = Inr ''Error: transfer already completed''
   \<and> js_includes ''Error: transfer already completed'' ''transfer already completed''
   \<and> fst (executeCrossChainTransfer completed_env ''0.01'' (fresh 0)) =
       Inr \<lparr>sourceAddress = ''Solana-address'', destinationAddress = ''Sepolia-address'',
            amount = ''0.01'', wormholeHash = Some ''tx-1''\<rparr>
   \<and> drop 10 (console (snd (executeCrossChainTransfer completed_env ''0.01'' (fresh 0)))) =
       [(LogLevel, [Str ''Transfer has already been completed, possibly automatically by a relayer or successfully completed previously'']),
        (LogLevel, [Str ''This is not an error, your assets should have reached the destination chain''])]"
  using already_completed_is_success[of completed_env "fresh 0" "()" 1
          "\<lparr>ss_chain = ''Solana'', ss_signer = ''Solana-signer'', ss_address = ''Solana-address''\<rparr>" 2
          "\<lparr>ss_chain = ''Sepolia'', ss_signer = ''Sepolia-signer'', ss_address = ''Sepolia-address''\<rparr>" 3
          9 4 "''0.01''" 10000000 "\<lparr>xfer_id = 0, transfer_automatic = False\<rparr>" 5
          "\<lparr>destinationToken_amount = 10000000\<rparr>" 6 "[''tx-1'', ''tx-2'']" 7 "[''vaa'']" 8
          "ErrorObj ''Error'' ''transfer already completed''" 9 "''Error: transfer already completed''"
          "demo_route False"]
  by (simp add: executeCrossChainTransfer_def tokenTransfer_def prog_defs demo_defs completed_env_def)

theorem failed_transfer_returns_result_witness:
  "fst (tokenTransfer timeout_env (demo_route False) (fresh 4)) =
     Inl (ErrorObj ''Error'' ''Timed out waiting for attestation'')
   \<and> fst (executeCrossChainTransfer timeout_env ''0.01'' (fresh 0)) =
       Inr \<lparr>sourceAddress = ''Solana-address'', destinationAddress = ''Sepolia-address'',
            amount = ''0.01'', wormholeHash = Some ''''\<rparr>"
  using failed_transfer_returns_result[of timeout_env "fresh 0" "()" 1
          "\<lparr>ss_chain = ''Solana'', ss_signer = ''Solana-signer'', ss_address = ''Solana-address''\<rparr>" 2
          "\<lparr>ss_chain = ''Sepolia'', ss_signer = ''Sepolia-signer'', ss_address = ''Sepolia-address''\<rparr>" 3
          9 4 "''0.01''" 10000000 "ErrorObj ''Error'' ''Timed out waiting for attestation''"]
  by (simp add: executeCrossChainTransfer_def tokenTransfer_def prog_defs demo_defs timeout_env_def)

lemma tokenTransfer_stops_at_failure:
  "\<forall>ev \<in> set (butlast (trace (snd (tokenTransfer env route (fresh w))))). snd ev"
  by (auto simp: tokenTransfer_def prog_defs console_log_def fresh_def split: prod.splits sum.splits)

text \<open>
  Claim C1, as amended. A failure of \<^verbatim>\<open>tokenTransfer\<close> is terminal for the transfer: every
  bridge call before the last one succeeded, so nothing is called after a failed call, and
  \<^verbatim>\<open>executeCrossChainTransfer\<close> makes no further call either. It does not raise the failure
  to its caller: it writes the caught value to the console and returns its result.
\<close>

theorem transfer_failure_logged_not_raised:
  assumes "wormhole env (world s) = (Inr u, w1)"
    and "getSigner env ''Solana'' w1 = (Inr src, w2)"
    and "getSigner env ''Sepolia'' w2 = (Inr dst, w3)"
    and "getTokenDecimals env (''Solana'', ''native'') ''Solana'' w3 = (Inr dec, w4)"
    and "amount_units_parse env amt dec = Inr units"
    and "tokenTransfer env
           \<lparr>route_token = (''Solana'', ''native''), route_amount = units, route_source = src,
            route_destination = dst, route_automatic = False\<rparr> (fresh w4) = (Inl e, t)"
  shows "(\<forall>ev \<in> set (butlast (trace t)). snd ev)
       \<and> (\<exists>res s'. executeCrossChainTransfer env amt s = (Inr res, s')
             \<and> world s' = world t
             \<and> trace s' = trace s @
                 [(Wormhole_init, True), (GetSigner ''Solana'', True), (GetSigner ''Sepolia'', True),
                  (GetTokenDecimals ''Solana'', True)] @ trace t
             \<and> console s' = console s @
                 [(LogLevel, [Str ''Starting cross-chain transfer...'']),
                  (LogLevel, [Str (''Sender: '' @ ss_address src)]),
                  (LogLevel, [Str (''Receiver: '' @ ss_address dst)]),
                  (LogLevel, [Str ''Getting cross-chain token: native''])] @ console t @
                 [(LogLevel, [Err e])])"
proof -
  let ?route = "\<lparr>route_token = (''Solana'', ''native''), route_amount = units, route_source = src,
                 route_destination = dst, route_automatic = False\<rparr>"
  have run: "tokenTransfer env ?route s4 = (Inl e, after s4 t)" if "world s4 = w4" for s4
    using framed_fresh[OF framed_tokenTransfer, of env ?route s4] that assms(6) by simp
  have "\<forall>ev \<in> set (butlast (trace t)). snd ev"
    using tokenTransfer_stops_at_failure[of env ?route w4] assms(6) by simp
  moreover have "\<exists>res s'. executeCrossChainTransfer env amt s = (Inr res, s')
             \<and> world s' = world t
             \<and> trace s' = trace s @
                 [(Wormhole_init, True), (GetSigner ''Solana'', True), (GetSigner ''Sepolia'', True),
                  (GetTokenDecimals ''Solana'', True)] @ trace t
             \<and> console s' = console s @
                 [(LogLevel, [Str ''Starting cross-chain transfer...'']),
                  (LogLevel, [Str (''Sender: '' @ ss_address src)]),
                  (LogLevel, [Str (''Receiver: '' @ ss_address dst)]),
                  (LogLevel, [Str ''Getting cross-chain token: native''])] @ console t @
                 [(LogLevel, [Err e])]"
    using assms(1-5)
    by (simp add: executeCrossChainTransfer_def prog_defs Let_def run)
  ultimately show ?thesis by blast
qed

theorem transfer_failure_swallowed_counterexample:
  "fst (tokenTransfer initiate_fail_env (demo_route False) (fresh 4)) =
     Inl (ErrorObj ''Error'' ''insufficient funds'')
   \<and> fst (executeCrossChainTransfer initiate_fail_env ''0.01'' (fresh 0)) =
       Inr \<lparr>sourceAddress = ''Solana-address'', destinationAddress = ''Sepolia-address'',
            amount = ''0.01'', wormholeHash = Some ''''\<rparr>"
  by (simp add: executeCrossChainTransfer_def tokenTransfer_def prog_defs demo_defs initiate_fail_env_def)

theorem transfer_failure_logged_not_raised_witness:
  "tokenTransfer initiate_fail_env (demo_route False) (fresh 4) =
     (Inl (ErrorObj ''Error'' ''insufficient funds''),
      \<lparr>world = 7,
       trace = [(Wh_tokenTransfer 10000000 ''Solana-address'' ''Sepolia-address'' False, True),
                (QuoteTransfer, True), (InitiateTransfer, False)],
       console = [], sleeps = []\<rparr>)
   \<and> world (snd (executeCrossChainTransfer initiate_fail_env ''0.01'' (fresh 0))) = 7
   \<and> trace (snd (executeCrossChainTransfer initiate_fail_env ''0.01'' (fresh 0))) =
       [(Wormhole_init, True), (GetSigner ''Solana'', True), (GetSigner ''Sepolia'', True),
        (GetTokenDecimals ''Solana'', True),
        (Wh_tokenTransfer 10000000 ''Solana-address'' ''Sepolia-address'' False, True),
        (QuoteTransfer, True), (InitiateTransfer, False)]
   \<and> last (console (snd (executeCrossChainTransfer initiate_fail_env ''0.01'' (fresh 0)))) =
       (LogLevel, [Err (ErrorObj ''Error'' ''insufficient funds'')])"
  using transfer_failure_logged_not_raised[of initiate_fail_env "fresh 0" "()" 1
          "\<lparr>ss_chain = ''Solana'', ss_signer = ''Solana-signer'', ss_address = ''Solana-address''\<rparr>" 2
          "\<lparr>ss_chain = ''Sepolia'', ss_signer = ''Sepolia-signer'', ss_address = ''Sepolia-address''\<rparr>" 3
          9 4 "''0.01''" 10000000 "ErrorObj ''Error'' ''insufficient funds''"]
  by (simp add: executeCrossChainTransfer_def tokenTransfer_def prog_defs demo_defs initiate_fail_env_def)

section \<open>Ordering of approval and dependent call\<close>

lemma guarded_append [simp]:
  "guarded isA isD ph (xs @ ys) =
     (guarded isA isD ph xs \<and> guarded isA isD (foldl (approval_step isA) ph xs) ys)"
  by (induction xs arbitrary: ph) auto

lemma phase_failed [simp]: "foldl (approval_step isA) ph (replicate k (c, False)) = ph"
  by (induction k) (simp_all add: approval_step_def)

lemma guarded_failed [simp]:
  "guarded isA isD ph (replicate k (c, False)) = (k = 0 \<or> \<not> isD c \<or> ph = Confirmed)"
  by (induction k) (auto simp: approval_step_def)


















lemmas run_defs = executeWithRetry_def executeWithRetry_loop.simps prog_defs demo_defs


section \<open>Insufficient loan-token balance\<close>

lemma retry_run:
  assumes "executeWithRetry (invoke c op) n d (fresh w) = (r, t)" and "world s = w"
  shows "executeWithRetry (invoke c op) n d s = (r, after s t)"
  using framed_fresh[OF framed_executeWithRetry[OF framed_invoke], of c op n d s] assms by simp

text \<open>
  Claim C7. With the key present, let the retried reads of the position, of the decimals
  and of the caller's loan-token balance return, the staked amount be positive and the
  balance be below the loaned amount. Then \<^verbatim>\<open>executeUnstake\<close> fails with the insufficient
  balance error; the successful balance read is the last external call and the only
  successful one, so the check is not repeated; no approve and no unstake call is made.
\<close>

theorem insufficient_loan_balance_fails_immediately:
  assumes "ETH_PRIVATE_KEY env = Some privateKey" and "privateKey \<noteq> []"
    and "new_Wallet env privateKey = Inr user"
    and "executeWithRetry (invoke (GetUserStake user) (contract_getUserStake env user)) 5 3000
           (fresh (world s)) = (Inr (stakedAmt, loanedAmt), t1)"
    and "executeWithRetry (invoke (Decimals WRAPPED_SOL_ADDRESS) (contract_decimals env WRAPPED_SOL_ADDRESS))
           5 3000 (fresh (world t1)) = (Inr dec, t2)"
    and "0 < stakedAmt"
    and "executeWithRetry (invoke (BalanceOf LOAN_TOKEN_ADDRESS user)
             (contract_balanceOf env LOAN_TOKEN_ADDRESS user)) 5 3000 (fresh (world t2))
           = (Inr loanBalance, t3)"
    and "loanBalance < loanedAmt"
  shows "\<exists>s'. executeUnstake env s = (Inl (insufficient_loan_balance env loanedAmt loanBalance), s')
           \<and> world s' = world t3
           \<and> trace s' = trace s @ trace t1 @ trace t2 @ trace t3
           \<and> (\<forall>ev \<in> set (trace t1 @ trace t2 @ trace t3).
                 (\<forall>token spender a. fst ev \<noteq> Approve token spender a) \<and> (\<forall>a. fst ev \<noteq> Unstake a))
           \<and> last (trace s') = (BalanceOf LOAN_TOKEN_ADDRESS user, True)
           \<and> length (filter (\<lambda>ev. ev = (BalanceOf LOAN_TOKEN_ADDRESS user, True)) (trace t1 @ trace t2 @ trace t3)) = 1
           \<and> last (console s') =
               (ErrorLevel, [Str ''Unstaking operation failed:'',
                             Err (insufficient_loan_balance env loanedAmt loanBalance)])"
proof -
  from retry_trace[OF assms(4)] obtain k1 where
    t1: "trace t1 = replicate k1 (GetUserStake user, False) @ [(GetUserStake user, True)]" by auto
  from retry_trace[OF assms(5)] obtain k2 where
    t2: "trace t2 = replicate k2 (Decimals WRAPPED_SOL_ADDRESS, False) @ [(Decimals WRAPPED_SOL_ADDRESS, True)]"
    by auto
  from retry_trace[OF assms(7)] obtain k3 where
    t3: "trace t3 = replicate k3 (BalanceOf LOAN_TOKEN_ADDRESS user, False)
                    @ [(BalanceOf LOAN_TOKEN_ADDRESS user, True)]" by auto
  note r1 = retry_run[OF assms(4)] and r2 = retry_run[OF assms(5)] and r3 = retry_run[OF assms(7)]
  define s' where "s' =
       console_error [Str ''Unstaking operation failed:'',
                      Err (insufficient_loan_balance env loanedAmt loanBalance)]
         (console_log [Str (''Loan token balance: '' @ formatUnits env loanBalance 18 @ '' CCLT'')]
           (after
             (console_log [Str (''- Loaned amount: '' @ formatUnits env loanedAmt 18 @ '' CCLT'')]
               (console_log [Str (''- Staked amount: '' @ formatUnits env stakedAmt dec @ '' SOL'')]
                 (console_log [Str ''Current staking status:'']
                   (after (after (console_log [Str ''Starting unstaking operation...''] s) t1) t2))))
             t3))"
  have run: "executeUnstake env s = (Inl (insufficient_loan_balance env loanedAmt loanBalance), s')"
    unfolding s'_def using assms(1,2,3,6,8)
    by (simp add: executeUnstake_def prog_defs r1 r2 r3)
  have "world s' = world t3" "trace s' = trace s @ trace t1 @ trace t2 @ trace t3"
    "last (console s') =
       (ErrorLevel, [Str ''Unstaking operation failed:'',
                     Err (insufficient_loan_balance env loanedAmt loanBalance)])"
    by (simp_all add: s'_def)
  moreover have "\<forall>ev \<in> set (trace t1 @ trace t2 @ trace t3).
                 (\<forall>token spender a. fst ev \<noteq> Approve token spender a) \<and> (\<forall>a. fst ev \<noteq> Unstake a)"
    by (auto simp: t1 t2 t3)
  moreover have "last (trace s @ trace t1 @ trace t2 @ trace t3) = (BalanceOf LOAN_TOKEN_ADDRESS user, True)"
    by (simp add: t3)
  moreover have "length (filter (\<lambda>ev. ev = (BalanceOf LOAN_TOKEN_ADDRESS user, True))
                   (trace t1 @ trace t2 @ trace t3)) = 1"
    by (simp add: t1 t2 t3)
  ultimately show ?thesis
    using run by (intro exI[of _ s']) simp
qed

lemma short_env_position:
  "executeWithRetry (invoke (GetUserStake ''0xuser'') (contract_getUserStake short_env ''0xuser''))
     5 3000 (fresh 0) =
   (Inr (2000000000, 20000000000),
    \<lparr>world = 2, trace = [(GetUserStake ''0xuser'', False), (GetUserStake ''0xuser'', True)],
     console = [(LogLevel, [Str ''Attempt '', Num 1, Str ''/'', Num 5, Str '' failed: '',
                            Str ''network error'']),
                (LogLevel, [Str ''Waiting '', Quantity 3, Str '' seconds before retrying...''])],
     sleeps = [3000]\<rparr>)"
  by (simp add: run_defs short_env_def)

lemma short_env_decimals:
  "executeWithRetry (invoke (Decimals WRAPPED_SOL_ADDRESS) (contract_decimals short_env WRAPPED_SOL_ADDRESS))
     5 3000 (fresh 2) =
   (Inr 8, \<lparr>world = 3, trace = [(Decimals WRAPPED_SOL_ADDRESS, True)], console = [], sleeps = []\<rparr>)"
  by (simp add: run_defs short_env_def)

lemma short_env_balance:
  "executeWithRetry (invoke (BalanceOf LOAN_TOKEN_ADDRESS ''0xuser'')
       (contract_balanceOf short_env LOAN_TOKEN_ADDRESS ''0xuser'')) 5 3000 (fresh 3) =
   (Inr 5, \<lparr>world = 4, trace = [(BalanceOf LOAN_TOKEN_ADDRESS ''0xuser'', True)], console = [],
            sleeps = []\<rparr>)"
  by (simp add: run_defs short_env_def)

lemma short_env_key:
  "ETH_PRIVATE_KEY short_env = Some ''key''" "''key'' \<noteq> []" "new_Wallet short_env ''key'' = Inr ''0xuser''"
  by (simp_all add: short_env_def demo_env_def)

theorem insufficient_loan_balance_fails_immediately_witness:
  "ETH_PRIVATE_KEY short_env = Some ''key'' \<and> new_Wallet short_env ''key'' = Inr ''0xuser''
   \<and> fst (executeWithRetry (invoke (BalanceOf LOAN_TOKEN_ADDRESS ''0xuser'')
             (contract_balanceOf short_env LOAN_TOKEN_ADDRESS ''0xuser'')) 5 3000 (fresh 3)) = Inr 5
   \<and> (5::int) < 20000000000
   \<and> fst (executeUnstake short_env (fresh 0)) =
       Inl (insufficient_loan_balance short_env 20000000000 5)
   \<and> trace (snd (executeUnstake short_env (fresh 0))) =
       [(GetUserStake ''0xuser'', False), (GetUserStake ''0xuser'', True),
        (Decimals WRAPPED_SOL_ADDRESS, True), (BalanceOf LOAN_TOKEN_ADDRESS ''0xuser'', True)]"
proof -
  have pos: "executeWithRetry (invoke (GetUserStake ''0xuser'') (contract_getUserStake short_env ''0xuser''))
     5 3000 (fresh (world (fresh (0::nat)))) =
   (Inr (2000000000, 20000000000),
    \<lparr>world = 2, trace = [(GetUserStake ''0xuser'', False), (GetUserStake ''0xuser'', True)],
     console = [(LogLevel, [Str ''Attempt '', Num 1, Str ''/'', Num 5, Str '' failed: '',
                            Str ''network error'']),
                (LogLevel, [Str ''Waiting '', Quantity 3, Str '' seconds before retrying...''])],
     sleeps = [3000]\<rparr>)"
    using short_env_position by simp
  have dec: "executeWithRetry (invoke (Decimals WRAPPED_SOL_ADDRESS) (contract_decimals short_env WRAPPED_SOL_ADDRESS))
     5 3000 (fresh (world \<lparr>world = 2::nat, trace = [(GetUserStake ''0xuser'', False), (GetUserStake ''0xuser'', True)],
     console = [(LogLevel, [Str ''Attempt '', Num 1, Str ''/'', Num 5, Str '' failed: '',
                            Str ''network error'']),
                (LogLevel, [Str ''Waiting '', Quantity 3, Str '' seconds before retrying...''])],
     sleeps = [3000]\<rparr>)) =
   (Inr 8, \<lparr>world = 3, trace = [(Decimals WRAPPED_SOL_ADDRESS, True)], console = [], sleeps = []\<rparr>)"
    using short_env_decimals by simp
  have bal: "executeWithRetry (invoke (BalanceOf LOAN_TOKEN_ADDRESS ''0xuser'')
       (contract_balanceOf short_env LOAN_TOKEN_ADDRESS ''0xuser'')) 5 3000
       (fresh (world \<lparr>world = 3::nat, trace = [(Decimals WRAPPED_SOL_ADDRESS, True)], console = [], sleeps = []\<rparr>)) =
   (Inr 5, \<lparr>world = 4, trace = [(BalanceOf LOAN_TOKEN_ADDRESS ''0xuser'', True)], console = [],
            sleeps = []\<rparr>)"
    using short_env_balance by simp
  have "(0::int) < 2000000000" "(5::int) < 20000000000" by simp_all
  from insufficient_loan_balance_fails_immediately[OF short_env_key pos dec this(1) bal this(2)]
  show ?thesis
    using short_env_key short_env_balance by auto
qed

section \<open>Validation of the amount\<close>

lemmas parse_defs = parseFloat_def unsigned_literal_def exponent_part_def scale10_def is_digit_def
  is_whitespace_def digits_value_def Let_def

lemma parseFloat_examples:
  "parseFloat ''0.01'' = Finite (1 / 100)"
  "parseFloat ''  -12.5e-1xyz'' = Finite (- (5 / 4))"
  "parseFloat ''1abc'' = Finite 1"
  "parseFloat ''.5'' = Finite (1 / 2)"
  "parseFloat ''.'' = NaN"
  "parseFloat ''-Infinity'' = NegInfinity"
  "parseFloat ''5.e+2'' = Finite 500"
  "parseFloat ''1e'' = Finite 1"
  by (simp_all add: parse_defs)

lemma number_le_zero_examples:
  "number_le_zero (parseFloat ''0'')"
  "number_le_zero (parseFloat ''-3'')"
  "\<not> number_le_zero (parseFloat ''0.01'')"
  "number_le_zero (parseFloat ''1e-400'')"
  by (simp_all add: parse_defs)

text \<open>
  Claim C4 at the input \<^verbatim>\<open>"abc"\<close>: \<^verbatim>\<open>parseFloat\<close> gives \<^verbatim>\<open>NaN\<close>, the comparison with 0 is false,
  and the handler runs the transfer and the staking with that amount; where the SDK rejects
  the amount and the destination balance is zero, the response is the success response.
\<close>

theorem non_numeric_amount_is_accepted:
  "parseFloat ''abc'' = NaN
   \<and> \<not> number_le_zero (parseFloat ''abc'')
   \<and> fst (cross_chain_stake_handler demo_env ''abc'' (fresh 0)) =
       Some (200, StakeSuccess ''Cross-chain staking operation completed successfully''
                    \<lparr>sourceAddress = ''Solana-address'', destinationAddress = ''Sepolia-address'',
                     amount = ''abc'', wormholeHash = Some ''''\<rparr> None)
   \<and> trace (snd (cross_chain_stake_handler demo_env ''abc'' (fresh 0))) =
       [(Wormhole_init, True), (GetSigner ''Solana'', True), (GetSigner ''Sepolia'', True),
        (GetTokenDecimals ''Solana'', True), (Minters STAKING_CONTRACT_ADDRESS, True),
        (BalanceOf WRAPPED_SOL_ADDRESS ''Sepolia-address'', True),
        (Decimals WRAPPED_SOL_ADDRESS, True)]"
  by (simp add: cross_chain_stake_handler_def executeCrossChainTransfer_def executeStaking_def
        executeWithRetry_def executeWithRetry_loop.simps prog_defs demo_defs parse_defs)

end
